theory Spec2Isabelle
  imports Complex_Main
begin

section \<open>Data model\<close>

text \<open>
  The daily vocabulary bot keeps two word catalogs (verbs and adjectives) and one
  persisted history document. Difficulty levels are Python floats; they are modelled as
  exact real numbers, so every comparison and every sum below is the mathematical one.
  A float sum is the double nearest to the exact sum, and equal to it whenever the exact
  sum is representable. Where a statement names a sum as such (the adjusted difficulty
  \<open>d + a\<close>, the edge of a band) the sum stands for the sum the code computes; where a
  statement relies on a law of exact arithmetic (adding and then subtracting 0.5), it is
  made for inputs on which the float sums are exact.
  Exceptions are values of the type \<open>error\<close>; a function that may raise returns
  \<open>error + 'a\<close> with \<open>Inl\<close> for the exception.
\<close>

datatype error =
    FileNotFoundError
  | JSONDecodeError
  | ValueError string
  | KeyError string
  | IndexError
  | IMAP4_error
  | OtherException

text \<open>
  A catalog entry. Only \<open>id\<close> and \<open>difficulty\<close> are read by the selection logic;
  \<open>difficulty\<close> is optional (the code reads it with \<^verbatim>\<open>word.get('difficulty', 2.0)\<close>),
  the remaining display fields are carried as one opaque text.
\<close>

record word_entry =
  word_id :: int
  difficulty :: "real option"
  display :: string

text \<open>The content of a JSON file on disk: missing, unparsable, or a parsed document.\<close>

datatype 'a json_file = Absent | Corrupt | Doc 'a

text \<open>A word file is a JSON object that may have a \<^verbatim>\<open>verbs\<close> and an \<^verbatim>\<open>adjectives\<close> key.\<close>

record words_doc =
  verbs :: "word_entry list option"
  adjectives :: "word_entry list option"

record sent_email =
  se_date :: string
  se_verb_id :: int
  se_adjective_id :: int
  se_success :: bool
  se_difficulty_level :: real

record adjustment =
  adj_date :: string
  adj_feedback :: string
  old_level :: real
  new_level :: real

text \<open>
  The history document. Every key is optional in the JSON object: the code reads some
  keys with \<^verbatim>\<open>.get(key, default)\<close> and others with \<^verbatim>\<open>history[key]\<close>, which raises
  \<^verbatim>\<open>KeyError\<close> when the key is missing. \<open>None\<close> is a missing key.
\<close>

record history =
  sent_emails :: "sent_email list option"
  used_verbs :: "int list option"
  used_adjectives :: "int list option"
  total_emails_sent :: "int option"
  current_difficulty_level :: "real option"
  difficulty_adjustments :: "adjustment list option"
  last_feedback_check :: "string option"

section \<open>Data manager\<close>

definition read_json :: "'a json_file \<Rightarrow> error + 'a" where
  "read_json filepath =
     (case filepath of
        Absent \<Rightarrow> Inl FileNotFoundError
      | Corrupt \<Rightarrow> Inl JSONDecodeError
      | Doc data \<Rightarrow> Inr data)"

definition write_json :: "'a json_file \<Rightarrow> 'a \<Rightarrow> 'a json_file" where
  "write_json filepath data = Doc data"

text \<open>
  The dictionary that \<^verbatim>\<open>update_history\<close> starts from when the history file does
  not exist yet.
\<close>

definition initial_history :: history where
  "initial_history =
     \<lparr> sent_emails = Some [], used_verbs = Some [], used_adjectives = Some [],
       total_emails_sent = Some 0, current_difficulty_level = Some 2.0,
       difficulty_adjustments = Some [], last_feedback_check = None \<rparr>"

text \<open>
  Every function that touches the history file takes the file's content and returns the
  content it leaves behind, next to its result. \<open>today\<close> is the value of
  \<^verbatim>\<open>datetime.now().strftime("%Y-%m-%d")\<close> and \<open>now_iso\<close> the value of
  \<^verbatim>\<open>datetime.now().isoformat()\<close>. An exception raised before
  \<^verbatim>\<open>write_json\<close> leaves the file as it was.
\<close>

definition update_history ::
  "history json_file \<Rightarrow> int \<Rightarrow> int \<Rightarrow> bool \<Rightarrow> real \<Rightarrow> string
     \<Rightarrow> (error + unit) \<times> history json_file" where
  "update_history history_file verb_id adjective_id success difficulty_level today =
     (case (case read_json history_file of
              Inl FileNotFoundError \<Rightarrow> Inr initial_history
            | Inl e \<Rightarrow> Inl e
            | Inr h \<Rightarrow> Inr h) of
        Inl e \<Rightarrow> (Inl e, history_file)
      | Inr h0 \<Rightarrow>
          (case sent_emails h0 of
             None \<Rightarrow> (Inl (KeyError ''sent_emails''), history_file)
           | Some sent \<Rightarrow>
               let h1 = h0\<lparr>sent_emails := Some (sent @
                          [\<lparr> se_date = today, se_verb_id = verb_id,
                             se_adjective_id = adjective_id, se_success = success,
                             se_difficulty_level = difficulty_level \<rparr>])\<rparr>
               in if success then
                    (case used_verbs h1 of
                       None \<Rightarrow> (Inl (KeyError ''used_verbs''), history_file)
                     | Some uv \<Rightarrow>
                         let h2 = (if verb_id \<notin> set uv
                                   then h1\<lparr>used_verbs := Some (uv @ [verb_id])\<rparr> else h1)
                         in (case used_adjectives h2 of
                               None \<Rightarrow> (Inl (KeyError ''used_adjectives''), history_file)
                             | Some ua \<Rightarrow>
                                 let h3 = (if adjective_id \<notin> set ua
                                           then h2\<lparr>used_adjectives := Some (ua @ [adjective_id])\<rparr>
                                           else h2)
                                 in (case total_emails_sent h3 of
                                       None \<Rightarrow> (Inl (KeyError ''total_emails_sent''), history_file)
                                     | Some n \<Rightarrow>
                                         (Inr (), write_json history_file
                                            (h3\<lparr>total_emails_sent := Some (n + 1)\<rparr>)))))
                  else (Inr (), write_json history_file h1)))"

definition reset_used_words ::
  "history json_file \<Rightarrow> string \<Rightarrow> (error + unit) \<times> history json_file" where
  "reset_used_words history_file word_type =
     (case read_json history_file of
        Inl e \<Rightarrow> (Inl e, history_file)
      | Inr h \<Rightarrow>
          if word_type = ''verbs'' then
            (Inr (), write_json history_file (h\<lparr>used_verbs := Some []\<rparr>))
          else if word_type = ''adjectives'' then
            (Inr (), write_json history_file (h\<lparr>used_adjectives := Some []\<rparr>))
          else (Inl (ValueError (''Invalid word_type: '' @ word_type)), history_file))"

definition update_difficulty_preference ::
  "history json_file \<Rightarrow> string \<Rightarrow> real \<Rightarrow> string \<Rightarrow> string
     \<Rightarrow> (error + real) \<times> history json_file" where
  "update_difficulty_preference history_file feedback adjustment today now_iso =
     (case read_json history_file of
        Inl e \<Rightarrow> (Inl e, history_file)
      | Inr h \<Rightarrow>
          let old = (case current_difficulty_level h of None \<Rightarrow> 2.0 | Some d \<Rightarrow> d);
              new = max 1.0 (min 5.0 (old + adjustment))
          in (case difficulty_adjustments h of
                None \<Rightarrow> (Inl (KeyError ''difficulty_adjustments''), history_file)
              | Some entries \<Rightarrow>
                  (Inr new, write_json history_file
                     (h\<lparr>difficulty_adjustments := Some (entries @
                          [\<lparr> adj_date = today, adj_feedback = feedback,
                             old_level = old, new_level = new \<rparr>]),
                        current_difficulty_level := Some new,
                        last_feedback_check := Some now_iso\<rparr>))))"

definition get_difficulty_level :: "history json_file \<Rightarrow> error + real" where
  "get_difficulty_level history_file =
     (case read_json history_file of
        Inr h \<Rightarrow> Inr (case current_difficulty_level h of None \<Rightarrow> 2.0 | Some d \<Rightarrow> d)
      | Inl FileNotFoundError \<Rightarrow> Inr 2.0
      | Inl e \<Rightarrow> Inl e)"

section \<open>Word selector\<close>

definition load_words :: "words_doc json_file \<Rightarrow> error + word_entry list" where
  "load_words filepath =
     (case read_json filepath of
        Inl e \<Rightarrow> Inl e
      | Inr data \<Rightarrow>
          (case verbs data of
             Some vs \<Rightarrow> Inr vs
           | None \<Rightarrow>
               (case adjectives data of
                  Some as \<Rightarrow> Inr as
                | None \<Rightarrow> Inl (ValueError
                    ''Invalid word file format - missing 'verbs' or 'adjectives' key''))))"

text \<open>\<^verbatim>\<open>word.get('difficulty', 2.0)\<close>\<close>

definition get_difficulty :: "word_entry \<Rightarrow> real" where
  "get_difficulty word = (case difficulty word of None \<Rightarrow> 2.0 | Some d \<Rightarrow> d)"

definition filter_words_by_difficulty ::
  "word_entry list \<Rightarrow> real \<Rightarrow> real \<Rightarrow> word_entry list" where
  "filter_words_by_difficulty words target_difficulty tolerance =
     (let min_diff = max 1.0 (target_difficulty - tolerance);
          max_diff = min 5.0 (target_difficulty + tolerance)
      in filter (\<lambda>word. min_diff \<le> get_difficulty word \<and> get_difficulty word \<le> max_diff) words)"

definition get_unused_words :: "word_entry list \<Rightarrow> int list \<Rightarrow> word_entry list" where
  "get_unused_words all_words used_ids =
     filter (\<lambda>word. word_id word \<notin> set used_ids) all_words"

text \<open>
  \<^verbatim>\<open>random.choice(seq)\<close> returns \<^verbatim>\<open>seq[randbelow(len(seq))]\<close> and raises
  \<^verbatim>\<open>IndexError\<close> on an empty sequence. The random source is injected: \<open>pick\<close> is the
  raw draw, reduced to an index below the length.
\<close>

definition random_choice :: "'a list \<Rightarrow> nat \<Rightarrow> error + 'a" where
  "random_choice seq pick =
     (if seq = [] then Inl IndexError else Inr (seq ! (pick mod length seq)))"

text \<open>
  The three bands of \<^verbatim>\<open>select_word_by_difficulty_distribution\<close>, and the pool that
  the final \<^verbatim>\<open>random.choice\<close> draws from; \<open>rand\<close> is the value of
  \<^verbatim>\<open>random.random()\<close>.
\<close>

definition current_range :: "word_entry list \<Rightarrow> real \<Rightarrow> word_entry list" where
  "current_range words current_difficulty =
     filter_words_by_difficulty words current_difficulty 0.5"

definition higher_range :: "word_entry list \<Rightarrow> real \<Rightarrow> word_entry list" where
  "higher_range words current_difficulty =
     filter_words_by_difficulty words (min 5.0 (current_difficulty + 1.0)) 0.5"

definition lower_range :: "word_entry list \<Rightarrow> real \<Rightarrow> word_entry list" where
  "lower_range words current_difficulty =
     filter_words_by_difficulty words (max 1.0 (current_difficulty - 1.0)) 0.5"

definition select_word_by_difficulty_distribution ::
  "word_entry list \<Rightarrow> real \<Rightarrow> real \<Rightarrow> nat \<Rightarrow> error + word_entry" where
  "select_word_by_difficulty_distribution words current_difficulty rand pick =
     (if words = [] then Inl (ValueError ''No words available to select from'')
      else if rand < 0.70 \<and> current_range words current_difficulty \<noteq> [] then
        random_choice (current_range words current_difficulty) pick
      else if rand < 0.90 \<and> higher_range words current_difficulty \<noteq> [] then
        random_choice (higher_range words current_difficulty) pick
      else if rand < 1.00 \<and> lower_range words current_difficulty \<noteq> [] then
        random_choice (lower_range words current_difficulty) pick
      else random_choice words pick)"

text \<open>
  \<^verbatim>\<open>select_daily_words\<close>. The two selections draw independently:
  \<open>(rand_v, pick_v)\<close> for the verb and \<open>(rand_a, pick_a)\<close> for the adjective.
  The result is the tuple of the source, next to the history file as selection leaves it
  (a reset is written to the file at once).
\<close>

definition select_daily_words ::
  "words_doc json_file \<Rightarrow> words_doc json_file \<Rightarrow> history json_file
     \<Rightarrow> real \<Rightarrow> nat \<Rightarrow> real \<Rightarrow> nat
     \<Rightarrow> (error + word_entry \<times> word_entry \<times> bool \<times> bool) \<times> history json_file" where
  "select_daily_words verbs_file adjectives_file history_file rand_v pick_v rand_a pick_a =
     (case load_words verbs_file of
        Inl e \<Rightarrow> (Inl e, history_file)
      | Inr all_verbs \<Rightarrow>
     (case load_words adjectives_file of
        Inl e \<Rightarrow> (Inl e, history_file)
      | Inr all_adjectives \<Rightarrow>
     (case (case read_json history_file of
              Inr h \<Rightarrow> Inr (case used_verbs h of None \<Rightarrow> [] | Some u \<Rightarrow> u,
                            case used_adjectives h of None \<Rightarrow> [] | Some u \<Rightarrow> u,
                            case current_difficulty_level h of None \<Rightarrow> 2.0 | Some d \<Rightarrow> d)
            | Inl FileNotFoundError \<Rightarrow> Inr ([], [], 2.0)
            | Inl e \<Rightarrow> Inl e) of
        Inl e \<Rightarrow> (Inl e, history_file)
      | Inr (used_v, used_a, current_difficulty) \<Rightarrow>
          let unused_verbs = get_unused_words all_verbs used_v;
              unused_adjectives = get_unused_words all_adjectives used_a
          in
     (case (if unused_verbs = [] then reset_used_words history_file ''verbs''
            else (Inr (), history_file)) of
        (Inl e, hf1) \<Rightarrow> (Inl e, hf1)
      | (Inr _, hf1) \<Rightarrow>
          let verb_reset = (unused_verbs = []);
              unused_verbs' = (if unused_verbs = [] then all_verbs else unused_verbs)
          in
     (case (if unused_adjectives = [] then reset_used_words hf1 ''adjectives''
            else (Inr (), hf1)) of
        (Inl e, hf2) \<Rightarrow> (Inl e, hf2)
      | (Inr _, hf2) \<Rightarrow>
          let adjective_reset = (unused_adjectives = []);
              unused_adjectives' =
                (if unused_adjectives = [] then all_adjectives else unused_adjectives)
          in
     (case select_word_by_difficulty_distribution unused_verbs' current_difficulty
             rand_v pick_v of
        Inl e \<Rightarrow> (Inl e, hf2)
      | Inr selected_verb \<Rightarrow>
     (case select_word_by_difficulty_distribution unused_adjectives' current_difficulty
             rand_a pick_a of
        Inl e \<Rightarrow> (Inl e, hf2)
      | Inr selected_adjective \<Rightarrow>
          (Inr (selected_verb, selected_adjective, verb_reset, adjective_reset),
           hf2))))))))"

section \<open>Feedback processor\<close>

text \<open>
  \<^verbatim>\<open>FEEDBACK_KEYWORDS\<close> is a dictionary literal; iteration over its keys follows the
  order of the literal, so it is an association list here.
\<close>

definition FEEDBACK_KEYWORDS :: "(string \<times> real) list" where
  "FEEDBACK_KEYWORDS =
     [(''easy'', 0.5), (''too easy'', 0.5), (''easier'', 0.5), (''simple'', 0.5),
      (''hard'', - 0.5), (''too hard'', - 0.5), (''harder'', - 0.5), (''difficult'', - 0.5),
      (''perfect'', 0.0), (''good'', 0.0), (''just right'', 0.0)]"

text \<open>
  Texts are ASCII strings. \<open>lower\<close> is \<^verbatim>\<open>str.lower()\<close> and \<open>is_word_char\<close> is the
  class \<^verbatim>\<open>\w\<close> of the \<^verbatim>\<open>re\<close> module, both on ASCII: letters, digits and the
  underscore.
\<close>

definition lower_char :: "char \<Rightarrow> char" where
  "lower_char c =
     (let n = (of_char c :: nat) in if 65 \<le> n \<and> n \<le> 90 then char_of (n + 32) else c)"

definition lower :: "string \<Rightarrow> string" where
  "lower text = map lower_char text"

definition is_word_char :: "char \<Rightarrow> bool" where
  "is_word_char c =
     (let n = (of_char c :: nat)
      in (48 \<le> n \<and> n \<le> 57) \<or> (65 \<le> n \<and> n \<le> 90) \<or> n = 95 \<or> (97 \<le> n \<and> n \<le> 122))"

text \<open>
  \<^verbatim>\<open>\b\<close> at position \<open>p\<close> of \<open>s\<close>: exactly one of the characters before and
  after the position is a word character, the ends of the string counting as non-word.
\<close>

definition word_boundary :: "string \<Rightarrow> nat \<Rightarrow> bool" where
  "word_boundary s p =
     ((0 < p \<and> p \<le> length s \<and> is_word_char (s ! (p - 1)))
        \<noteq> (p < length s \<and> is_word_char (s ! p)))"

text \<open>
  \<^verbatim>\<open>re.search(r'\b' + re.escape(keyword) + r'\b', s)\<close>: the keywords consist of
  letters and spaces, which \<^verbatim>\<open>re.escape\<close> turns into a pattern matching the keyword
  literally, so a match is an occurrence of the keyword at some position \<open>i\<close> with a
  boundary on both sides.
\<close>

definition re_search_bounded :: "string \<Rightarrow> string \<Rightarrow> bool" where
  "re_search_bounded keyword s =
     list_ex (\<lambda>i. word_boundary s i
                 \<and> take (length keyword) (drop i s) = keyword
                 \<and> word_boundary s (i + length keyword))
       [0..<Suc (length s)]"

definition parse_feedback_from_text :: "string \<Rightarrow> string option" where
  "parse_feedback_from_text text =
     (let text_lower = lower text
      in find (\<lambda>keyword. re_search_bounded keyword text_lower) (map fst FEEDBACK_KEYWORDS))"

text \<open>\<^verbatim>\<open>sub in s\<close> for strings.\<close>

definition contains :: "string \<Rightarrow> string \<Rightarrow> bool" where
  "contains s sub = list_ex (\<lambda>i. take (length sub) (drop i s) = sub) [0..<Suc (length s)]"

text \<open>
  What the IMAP steps of \<^verbatim>\<open>check_for_feedback\<close> produce: an IMAP error, another
  exception, no message in the search result, or the subject and the plain-text body of
  the most recent message.
\<close>

datatype mail_outcome =
    ImapFailure
  | MailException
  | NoMessages
  | LatestMessage string string

text \<open>The body of the \<^verbatim>\<open>try\<close> block of \<^verbatim>\<open>check_for_feedback\<close>.\<close>

definition check_for_feedback_try ::
  "history json_file \<Rightarrow> mail_outcome \<Rightarrow> string \<Rightarrow> string
     \<Rightarrow> (error + bool \<times> string option \<times> real option) \<times> history json_file" where
  "check_for_feedback_try history_file mail today now_iso =
     (case mail of
        ImapFailure \<Rightarrow> (Inl IMAP4_error, history_file)
      | MailException \<Rightarrow> (Inl OtherException, history_file)
      | NoMessages \<Rightarrow> (Inr (False, None, None), history_file)
      | LatestMessage subject body \<Rightarrow>
          if \<not> contains (lower subject) ''daily spanish'' \<and> \<not> contains (lower subject) ''re:''
          then (Inr (False, None, None), history_file)
          else
            (case parse_feedback_from_text body of
               None \<Rightarrow> (Inr (False, None, None), history_file)
             | Some feedback \<Rightarrow>
                 if feedback = [] then (Inr (False, None, None), history_file)
                 else
                   (case map_of FEEDBACK_KEYWORDS feedback of
                      None \<Rightarrow> (Inl (KeyError feedback), history_file)
                    | Some adjustment \<Rightarrow>
                        (case update_difficulty_preference history_file feedback adjustment
                                today now_iso of
                           (Inl e, hf) \<Rightarrow> (Inl e, hf)
                         | (Inr new, hf) \<Rightarrow> (Inr (True, Some feedback, Some new), hf)))))"

text \<open>
  \<^verbatim>\<open>check_for_feedback\<close>: both \<^verbatim>\<open>except\<close> clauses print the error and return
  \<^verbatim>\<open>(False, None, None)\<close>, so the function itself never raises.
\<close>

definition check_for_feedback ::
  "history json_file \<Rightarrow> mail_outcome \<Rightarrow> string \<Rightarrow> string
     \<Rightarrow> (bool \<times> string option \<times> real option) \<times> history json_file" where
  "check_for_feedback history_file mail today now_iso =
     (case check_for_feedback_try history_file mail today now_iso of
        (Inl e, hf) \<Rightarrow> ((False, None, None), hf)
      | (Inr r, hf) \<Rightarrow> (r, hf))"

section \<open>Entry points\<close>

text \<open>
  \<^verbatim>\<open>main\<close> of \<^verbatim>\<open>check_feedback.py\<close>: the exit code and the history file it
  leaves. \<open>config_valid\<close> says whether \<^verbatim>\<open>Settings.validate()\<close> passes.
\<close>

definition check_feedback_main ::
  "bool \<Rightarrow> history json_file \<Rightarrow> mail_outcome \<Rightarrow> string \<Rightarrow> string
     \<Rightarrow> int \<times> history json_file" where
  "check_feedback_main config_valid history_file mail today now_iso =
     (if \<not> config_valid then (1, history_file)
      else
        (case check_for_feedback history_file mail today now_iso of
           ((found, feedback_keyword, new), hf) \<Rightarrow> (if found then (0, hf) else (0, hf))))"

text \<open>
  \<^verbatim>\<open>main\<close> of \<^verbatim>\<open>main.py\<close>. \<open>delivered\<close> is what \<^verbatim>\<open>send_daily_email\<close> returns
  (it catches every exception of the transport and returns a boolean); logging and the
  rendering of the message are left out. Every exception is caught at the end of
  \<^verbatim>\<open>main\<close> and gives exit code 1.
\<close>

definition main ::
  "bool \<Rightarrow> bool \<Rightarrow> words_doc json_file \<Rightarrow> words_doc json_file \<Rightarrow> history json_file
     \<Rightarrow> real \<Rightarrow> nat \<Rightarrow> real \<Rightarrow> nat \<Rightarrow> bool \<Rightarrow> string
     \<Rightarrow> int \<times> history json_file" where
  "main config_valid dry_run verbs_file adjectives_file history_file
        rand_v pick_v rand_a pick_a delivered today =
     (if \<not> config_valid then (1, history_file)
      else
        (case select_daily_words verbs_file adjectives_file history_file
                rand_v pick_v rand_a pick_a of
           (Inl e, hf1) \<Rightarrow> (1, hf1)
         | (Inr (verb, adjective, verb_reset, adj_reset), hf1) \<Rightarrow>
             (case get_difficulty_level hf1 of
                Inl e \<Rightarrow> (1, hf1)
              | Inr current_difficulty \<Rightarrow>
                  if dry_run then (0, hf1)
                  else if delivered then
                    (case update_history hf1 (word_id verb) (word_id adjective) True
                            current_difficulty today of
                       (Inl e, hf2) \<Rightarrow> (1, hf2)
                     | (Inr _, hf2) \<Rightarrow> (0, hf2))
                  else (1, hf1))))"

section \<open>Example data\<close>

text \<open>Catalog entries and catalogs used at the concrete inputs below.\<close>

definition hablar :: word_entry where
  "hablar = \<lparr> word_id = 1, difficulty = Some 3.0, display = ''hablar'' \<rparr>"

definition caber :: word_entry where
  "caber = \<lparr> word_id = 2, difficulty = Some 5.0, display = ''caber'' \<rparr>"

definition comer :: word_entry where
  "comer = \<lparr> word_id = 3, difficulty = Some 2.0, display = ''comer'' \<rparr>"

definition ser :: word_entry where
  "ser = \<lparr> word_id = 4, difficulty = Some 1.0, display = ''ser'' \<rparr>"

definition ir :: word_entry where
  "ir = \<lparr> word_id = 5, difficulty = None, display = ''ir'' \<rparr>"

definition cascade_words :: "word_entry list" where
  "cascade_words = [hablar, caber]"

definition band_words :: "word_entry list" where
  "band_words = [comer, hablar, ser]"

definition history_at :: "real \<Rightarrow> history" where
  "history_at d = initial_history\<lparr>current_difficulty_level := Some d\<rparr>"

definition history_used :: "int list \<Rightarrow> int list \<Rightarrow> history" where
  "history_used uv ua = initial_history\<lparr>used_verbs := Some uv, used_adjectives := Some ua\<rparr>"

definition vivir :: word_entry where
  "vivir = \<lparr> word_id = 1, difficulty = Some 2.0, display = ''vivir'' \<rparr>"

definition beber :: word_entry where
  "beber = \<lparr> word_id = 2, difficulty = Some 2.0, display = ''beber'' \<rparr>"

definition rojo :: word_entry where
  "rojo = \<lparr> word_id = 1, difficulty = Some 2.0, display = ''rojo'' \<rparr>"

definition verbs_file_of :: "word_entry list \<Rightarrow> words_doc json_file" where
  "verbs_file_of ws = Doc \<lparr> verbs = Some ws, adjectives = None \<rparr>"

definition adjectives_file_of :: "word_entry list \<Rightarrow> words_doc json_file" where
  "adjectives_file_of ws = Doc \<lparr> verbs = None, adjectives = Some ws \<rparr>"

definition reply_too_hard :: mail_outcome where
  "reply_too_hard =
     LatestMessage ''Re: Your Daily Spanish Vocabulary'' ''This was too hard for me''"

section \<open>Notions of the specification\<close>

text \<open>
  The specification's \<open>clamp(x, lo, hi)\<close>, written by cases, to be compared with the
  \<^verbatim>\<open>max(1.0, min(5.0, ...))\<close> of the source.
\<close>

definition clamp :: "real \<Rightarrow> real \<Rightarrow> real \<Rightarrow> real" where
  "clamp x lo hi = (if x < lo then lo else if hi < x then hi else x)"

text \<open>
  A whole-word occurrence of a keyword in a text: the keyword stands at position \<open>i\<close>,
  and the characters next to it on either side, if any, are not word characters.
\<close>

definition whole_word_at :: "string \<Rightarrow> string \<Rightarrow> nat \<Rightarrow> bool" where
  "whole_word_at keyword s i \<longleftrightarrow>
     i + length keyword \<le> length s
     \<and> take (length keyword) (drop i s) = keyword
     \<and> (i = 0 \<or> \<not> is_word_char (s ! (i - 1)))
     \<and> (i + length keyword = length s \<or> \<not> is_word_char (s ! (i + length keyword)))"

definition occurs_as_whole_word :: "string \<Rightarrow> string \<Rightarrow> bool" where
  "occurs_as_whole_word keyword s \<longleftrightarrow> (\<exists>i \<le> length s. whole_word_at keyword s i)"

text \<open>
  Observers of the persisted history, as \<^verbatim>\<open>select_daily_words\<close> reads it: the used
  IDs and the difficulty that a run starts from (the defaults when the file or the key is
  missing).
\<close>

definition used_verbs_of :: "history json_file \<Rightarrow> int list" where
  "used_verbs_of hf =
     (case hf of Doc h \<Rightarrow> (case used_verbs h of None \<Rightarrow> [] | Some u \<Rightarrow> u) | _ \<Rightarrow> [])"

definition used_adjectives_of :: "history json_file \<Rightarrow> int list" where
  "used_adjectives_of hf =
     (case hf of Doc h \<Rightarrow> (case used_adjectives h of None \<Rightarrow> [] | Some u \<Rightarrow> u) | _ \<Rightarrow> [])"

definition difficulty_of :: "history json_file \<Rightarrow> real" where
  "difficulty_of hf =
     (case hf of Doc h \<Rightarrow> (case current_difficulty_level h of None \<Rightarrow> 2.0 | Some d \<Rightarrow> d)
      | _ \<Rightarrow> 2.0)"

text \<open>
  The history file after the resets of a selection: the used list of every exhausted
  catalog is cleared, everything else is as before.
\<close>

definition after_resets :: "bool \<Rightarrow> bool \<Rightarrow> history json_file \<Rightarrow> history json_file" where
  "after_resets vr ar hf =
     (case hf of
        Doc h \<Rightarrow> Doc (h\<lparr>used_verbs := (if vr then Some [] else used_verbs h),
                       used_adjectives := (if ar then Some [] else used_adjectives h)\<rparr>)
      | _ \<Rightarrow> hf)"

section \<open>Band partitioning\<close>

lemmas example_words_defs =
  hablar_def caber_def comer_def ser_def ir_def cascade_words_def band_words_def

lemmas range_defs =
  current_range_def higher_range_def lower_range_def filter_words_by_difficulty_def
  get_difficulty_def

lemma filter_missing_difficulty:
  "difficulty w = None \<Longrightarrow>
     (w \<in> set (filter_words_by_difficulty words t tol)
        \<longleftrightarrow> w \<in> set words \<and> max 1.0 (t - tol) \<le> 2.0 \<and> 2.0 \<le> min 5.0 (t + tol))"
  by (auto simp: filter_words_by_difficulty_def get_difficulty_def Let_def)

lemma filter_words_subset: "set (filter_words_by_difficulty words t tol) \<subseteq> set words"
  by (auto simp: filter_words_by_difficulty_def Let_def)

lemma range_subset:
  "set (current_range words d) \<subseteq> set words"
  "set (higher_range words d) \<subseteq> set words"
  "set (lower_range words d) \<subseteq> set words"
  by (simp_all add: current_range_def higher_range_def lower_range_def filter_words_subset)

text \<open>
  Claim C10. A catalog entry without a difficulty field is treated as having difficulty
  exactly 2.0: it is in the result of \<open>filter_words_by_difficulty\<close> if and only if it
  is in the input and 2.0 lies in the range \<open>[max 1 (t - tol), min 5 (t + tol)]\<close>, for
  every target and tolerance, and so for each of the three bands of the selection at
  every current difficulty.
\<close>

theorem missing_difficulty_is_two:
  assumes "difficulty w = None"
  shows "(w \<in> set (filter_words_by_difficulty words t tol)
            \<longleftrightarrow> w \<in> set words \<and> max 1.0 (t - tol) \<le> 2.0 \<and> 2.0 \<le> min 5.0 (t + tol))
       \<and> (w \<in> set (current_range words d)
            \<longleftrightarrow> w \<in> set words \<and> max 1.0 (d - 0.5) \<le> 2.0 \<and> 2.0 \<le> min 5.0 (d + 0.5))
       \<and> (w \<in> set (higher_range words d)
            \<longleftrightarrow> w \<in> set words \<and> max 1.0 (min 5.0 (d + 1.0) - 0.5) \<le> 2.0
                \<and> 2.0 \<le> min 5.0 (min 5.0 (d + 1.0) + 0.5))
       \<and> (w \<in> set (lower_range words d)
            \<longleftrightarrow> w \<in> set words \<and> max 1.0 (max 1.0 (d - 1.0) - 0.5) \<le> 2.0
                \<and> 2.0 \<le> min 5.0 (max 1.0 (d - 1.0) + 0.5))"
  unfolding current_range_def higher_range_def lower_range_def
  using filter_missing_difficulty [OF assms] by blast

theorem missing_difficulty_is_two_witness:
  "difficulty ir = None
     \<and> ir \<in> set (filter_words_by_difficulty [hablar, ir] 2.4 0.5)
     \<and> ir \<notin> set (filter_words_by_difficulty [hablar, ir] 2.6 0.5)
     \<and> ir \<in> set (current_range [hablar, ir] 2.5)
     \<and> ir \<notin> set (higher_range [hablar, ir] 2.5)
     \<and> ir \<in> set (lower_range [hablar, ir] 2.5)"
proof -
  have h: "difficulty ir = None" by (simp add: ir_def)
  show ?thesis
    using h missing_difficulty_is_two [OF h, of "[hablar, ir]" "2.4" "0.5" "2.5"]
      missing_difficulty_is_two [OF h, of "[hablar, ir]" "2.6" "0.5" "2.5"]
    by simp
qed

section \<open>Selection by difficulty distribution\<close>

lemma random_choice_mem: "seq \<noteq> [] \<Longrightarrow> \<exists>x \<in> set seq. random_choice seq pick = Inr x"
  by (simp add: random_choice_def)

lemma select_word_mem:
  assumes "words \<noteq> []"
  shows "\<exists>w \<in> set words. select_word_by_difficulty_distribution words d rand pick = Inr w"
  using assms range_subset [of words d]
    random_choice_mem [of "current_range words d" pick]
    random_choice_mem [of "higher_range words d" pick]
    random_choice_mem [of "lower_range words d" pick]
    random_choice_mem [of words pick]
  unfolding select_word_by_difficulty_distribution_def
  by (auto split: if_splits)

text \<open>
  Claim C1, as amended. For a non-empty list of unused words and a draw \<open>rand\<close> in
  \<open>[0, 1)\<close>, the word is chosen by \<open>random_choice\<close> from the current band when
  \<open>rand < 0.70\<close> and that band is non-empty, from the higher band when
  \<open>0.70 \<le> rand < 0.90\<close> and that band is non-empty, from the lower band when
  \<open>0.90 \<le> rand\<close> and that band is non-empty. An empty band does not lead to the whole
  list at once: the choice falls through to the next band in the order current, higher,
  lower, and only when every band that is still ahead is empty is the word chosen from
  all unused words. In every case the result is one of the unused words.
\<close>

theorem select_word_band_cascade:
  assumes "words \<noteq> []" and "0 \<le> rand" and "rand < 1"
  shows "(rand < 0.70 \<and> current_range words d \<noteq> [] \<longrightarrow>
            select_word_by_difficulty_distribution words d rand pick
              = random_choice (current_range words d) pick)
       \<and> (0.70 \<le> rand \<and> rand < 0.90 \<and> higher_range words d \<noteq> [] \<longrightarrow>
            select_word_by_difficulty_distribution words d rand pick
              = random_choice (higher_range words d) pick)
       \<and> (0.90 \<le> rand \<and> lower_range words d \<noteq> [] \<longrightarrow>
            select_word_by_difficulty_distribution words d rand pick
              = random_choice (lower_range words d) pick)
       \<and> (rand < 0.70 \<and> current_range words d = [] \<and> higher_range words d \<noteq> [] \<longrightarrow>
            select_word_by_difficulty_distribution words d rand pick
              = random_choice (higher_range words d) pick)
       \<and> (rand < 0.90 \<and> (rand < 0.70 \<longrightarrow> current_range words d = [])
            \<and> higher_range words d = [] \<and> lower_range words d \<noteq> [] \<longrightarrow>
            select_word_by_difficulty_distribution words d rand pick
              = random_choice (lower_range words d) pick)
       \<and> ((rand < 0.70 \<longrightarrow> current_range words d = [])
            \<and> (rand < 0.90 \<longrightarrow> higher_range words d = [])
            \<and> lower_range words d = [] \<longrightarrow>
            select_word_by_difficulty_distribution words d rand pick
              = random_choice words pick)
       \<and> (\<exists>w \<in> set words. select_word_by_difficulty_distribution words d rand pick = Inr w)"
  using assms(1,3) select_word_mem [OF assms(1), of d rand pick]
  unfolding select_word_by_difficulty_distribution_def
  by auto

theorem select_word_band_cascade_witness:
  "band_words \<noteq> [] \<and> cascade_words \<noteq> [] \<and> [caber] \<noteq> []
     \<and> (0::real) \<le> 0.5 \<and> (0.5::real) < 0.70 \<and> (0.70::real) \<le> 0.8 \<and> (0.8::real) < 0.90
     \<and> (0.90::real) \<le> 0.95 \<and> (0.95::real) < 1
     \<and> select_word_by_difficulty_distribution band_words 2.0 0.5 0 = Inr comer
     \<and> select_word_by_difficulty_distribution band_words 2.0 0.8 0 = Inr hablar
     \<and> select_word_by_difficulty_distribution band_words 2.0 0.95 0 = Inr ser
     \<and> current_range cascade_words 2.0 = []
     \<and> select_word_by_difficulty_distribution cascade_words 2.0 0.5 1 = Inr hablar
     \<and> higher_range [caber] 2.0 = [] \<and> lower_range [caber] 2.0 = []
     \<and> select_word_by_difficulty_distribution [caber] 2.0 0.5 0 = Inr caber"
  using select_word_band_cascade [where words = band_words and rand = "0.5" and d = "2.0" and pick = 0]
    select_word_band_cascade [where words = band_words and rand = "0.8" and d = "2.0" and pick = 0]
    select_word_band_cascade [where words = band_words and rand = "0.95" and d = "2.0" and pick = 0]
    select_word_band_cascade [where words = cascade_words and rand = "0.5" and d = "2.0" and pick = 1]
    select_word_band_cascade [where words = "[caber]" and rand = "0.5" and d = "2.0" and pick = 0]
  by (simp add: example_words_defs range_defs random_choice_def)

text \<open>
  Claim C1 as stated fails. With the two unused words \<open>hablar\<close> (difficulty 3.0) and
  \<open>caber\<close> (difficulty 5.0), current difficulty 2.0 and the draw 0.5, the band chosen by
  the draw (the current band) is empty, yet the word is not chosen from all unused words:
  with index draw 1 a choice over the whole list gives \<open>caber\<close>, while the selection
  returns \<open>hablar\<close>, the only word of the higher band.
\<close>

theorem select_word_fallback_counterexample:
  "cascade_words \<noteq> [] \<and> (0::real) \<le> 0.5 \<and> (0.5::real) < 0.70
     \<and> current_range cascade_words 2.0 = []
     \<and> select_word_by_difficulty_distribution cascade_words 2.0 0.5 1 = Inr hablar
     \<and> random_choice cascade_words 1 = Inr caber
     \<and> select_word_by_difficulty_distribution cascade_words 2.0 0.5 1
         \<noteq> random_choice cascade_words 1"
  by (simp add: example_words_defs select_word_by_difficulty_distribution_def
      range_defs random_choice_def)

section \<open>Applying feedback\<close>

lemma update_difficulty_preference_Doc:
  assumes "difficulty_adjustments h = Some entries"
  shows "update_difficulty_preference (Doc h) feedback a today now_iso =
     (let old = (case current_difficulty_level h of None \<Rightarrow> 2.0 | Some d \<Rightarrow> d);
          new = max 1.0 (min 5.0 (old + a))
      in (Inr new,
          Doc (h\<lparr>difficulty_adjustments := Some (entries @
                    [\<lparr> adj_date = today, adj_feedback = feedback,
                       old_level = old, new_level = new \<rparr>]),
                 current_difficulty_level := Some new,
                 last_feedback_check := Some now_iso\<rparr>)))"
  using assms
  by (simp add: update_difficulty_preference_def read_json_def write_json_def Let_def)

text \<open>
  Claim C7. For a history document with prior difficulty \<open>d\<close> and an adjustment log, and
  for every adjustment \<open>a\<close>, \<open>update_difficulty_preference\<close> returns and persists the
  difficulty \<open>clamp (d + a) 1.0 5.0\<close> and appends exactly one entry to the adjustment
  log, which records the date, the feedback keyword, the old level \<open>d\<close> and the new
  level; the used lists, the send log and the send count are left as they were.
\<close>

theorem apply_feedback_clamps_and_logs:
  assumes "current_difficulty_level h = Some d"
    and "difficulty_adjustments h = Some entries"
  shows "\<exists>h'. update_difficulty_preference (Doc h) feedback a today now_iso
                 = (Inr (clamp (d + a) 1.0 5.0), Doc h')
      \<and> current_difficulty_level h' = Some (clamp (d + a) 1.0 5.0)
      \<and> difficulty_adjustments h' = Some (entries @
            [\<lparr> adj_date = today, adj_feedback = feedback,
               old_level = d, new_level = clamp (d + a) 1.0 5.0 \<rparr>])
      \<and> sent_emails h' = sent_emails h \<and> used_verbs h' = used_verbs h
      \<and> used_adjectives h' = used_adjectives h
      \<and> total_emails_sent h' = total_emails_sent h"
proof -
  have c: "max 1.0 (min 5.0 (d + a)) = clamp (d + a) 1.0 5.0"
    by (simp add: clamp_def max_def min_def)
  show ?thesis
    using assms(1) c
    by (simp add: update_difficulty_preference_Doc [OF assms(2)] Let_def)
qed

theorem apply_feedback_clamps_and_logs_witness:
  "current_difficulty_level (history_at 3.0) = Some 3.0
   \<and> difficulty_adjustments (history_at 3.0) = Some []
   \<and> (\<exists>h'. update_difficulty_preference (Doc (history_at 3.0)) ''too hard'' (- 0.5)
              ''2025-01-15'' ''2025-01-15T08:00:00''
             = (Inr 2.5, Doc h')
        \<and> current_difficulty_level h' = Some 2.5
        \<and> difficulty_adjustments h' = Some
             [\<lparr> adj_date = ''2025-01-15'', adj_feedback = ''too hard'',
                old_level = 3.0, new_level = 2.5 \<rparr>])"
proof -
  have h1: "current_difficulty_level (history_at 3.0) = Some 3.0"
    by (simp add: history_at_def)
  have h2: "difficulty_adjustments (history_at 3.0) = Some []"
    by (simp add: history_at_def initial_history_def)
  have c: "clamp (3.0 + - 0.5) 1.0 5.0 = 2.5" by (simp add: clamp_def)
  show ?thesis
    using h1 h2 apply_feedback_clamps_and_logs [OF h1 h2, of "''too hard''" "- 0.5" "''2025-01-15''" "''2025-01-15T08:00:00''"]
    unfolding c by auto
qed

text \<open>
  Claim C3, as amended. For a starting difficulty \<open>d\<close> in \<open>[1.0, 4.5]\<close> that is a
  multiple of 0.5, an adjustment of +0.5 followed by an adjustment of -0.5 returns and
  persists the original value \<open>d\<close>. For a starting difficulty above 4.5 (and at most
  5.0) the first step is clamped to 5.0 (so 4.8 + 0.5 gives 5.0, not 5.3) and the second
  step gives 4.5, not \<open>d\<close>.

  The multiples of 0.5 are the levels that the adjustments of \<open>FEEDBACK_KEYWORDS\<close>
  reach from the default 2.0. On them, and on the clamped branch, every sum that occurs
  is exactly representable as a double, so the exact sum of the model is the sum the
  code computes. For other values the float sum is rounded (1.7 + 0.5 - 0.5 is
  1.7000000000000002 in the code); nothing is stated about them.
\<close>

theorem easy_then_hard_round_trip:
  assumes "current_difficulty_level h = Some d"
    and "difficulty_adjustments h = Some entries"
  shows "((\<exists>k :: int. d = of_int k / 2) \<and> 1.0 \<le> d \<and> d \<le> 4.5 \<longrightarrow>
            (\<exists>hf1 h2.
               update_difficulty_preference (Doc h) easy 0.5 today1 now1
                 = (Inr (d + 0.5), hf1)
             \<and> update_difficulty_preference hf1 hard (- 0.5) today2 now2
                 = (Inr d, Doc h2)
             \<and> current_difficulty_level h2 = Some d))
       \<and> (4.5 < d \<and> d \<le> 5.0 \<longrightarrow>
            (\<exists>hf1 h2.
               update_difficulty_preference (Doc h) easy 0.5 today1 now1
                 = (Inr 5.0, hf1)
             \<and> update_difficulty_preference hf1 hard (- 0.5) today2 now2
                 = (Inr 4.5, Doc h2)
             \<and> current_difficulty_level h2 = Some 4.5))"
  using assms(1)
  by (simp add: update_difficulty_preference_Doc [OF assms(2)]
      update_difficulty_preference_Doc Let_def min_def max_def)

theorem easy_then_hard_round_trip_witness:
  "current_difficulty_level (history_at 3.0) = Some 3.0
   \<and> difficulty_adjustments (history_at 3.0) = Some []
   \<and> (3.0 :: real) = of_int 6 / 2 \<and> (1.0 :: real) \<le> 3.0 \<and> (3.0 :: real) \<le> 4.5
   \<and> (\<exists>hf1 h2.
         update_difficulty_preference (Doc (history_at 3.0)) ''easy'' 0.5
           ''2025-01-15'' ''2025-01-15T08:00:00'' = (Inr 3.5, hf1)
       \<and> update_difficulty_preference hf1 ''hard'' (- 0.5)
           ''2025-01-16'' ''2025-01-16T08:00:00'' = (Inr 3.0, Doc h2)
       \<and> current_difficulty_level h2 = Some 3.0)
   \<and> current_difficulty_level (history_at 5.0) = Some 5.0
   \<and> difficulty_adjustments (history_at 5.0) = Some []
   \<and> (4.5 :: real) < 5.0 \<and> (5.0 :: real) \<le> 5.0
   \<and> (\<exists>hf1 h2.
         update_difficulty_preference (Doc (history_at 5.0)) ''easy'' 0.5
           ''2025-01-15'' ''2025-01-15T08:00:00'' = (Inr 5.0, hf1)
       \<and> update_difficulty_preference hf1 ''hard'' (- 0.5)
           ''2025-01-16'' ''2025-01-16T08:00:00'' = (Inr 4.5, Doc h2)
       \<and> current_difficulty_level h2 = Some 4.5)"
proof -
  have a1: "current_difficulty_level (history_at 3.0) = Some 3.0"
    and b1: "current_difficulty_level (history_at 5.0) = Some 5.0"
    by (simp_all add: history_at_def)
  have a2: "difficulty_adjustments (history_at 3.0) = Some []"
    and b2: "difficulty_adjustments (history_at 5.0) = Some []"
    by (simp_all add: history_at_def initial_history_def)
  have k: "\<exists>k :: int. (3.0 :: real) = of_int k / 2"
    by (rule exI [of _ 6]) simp
  have s: "(3.0 :: real) + 0.5 = 3.5" by simp
  note t1 = easy_then_hard_round_trip [OF a1 a2, of "''easy''" "''2025-01-15''"
        "''2025-01-15T08:00:00''" "''hard''" "''2025-01-16''" "''2025-01-16T08:00:00''",
        THEN conjunct1]
  note t2 = easy_then_hard_round_trip [OF b1 b2, of "''easy''" "''2025-01-15''"
        "''2025-01-15T08:00:00''" "''hard''" "''2025-01-16''" "''2025-01-16T08:00:00''",
        THEN conjunct2]
  have r1: "\<exists>hf1 h2.
         update_difficulty_preference (Doc (history_at 3.0)) ''easy'' 0.5
           ''2025-01-15'' ''2025-01-15T08:00:00'' = (Inr 3.5, hf1)
       \<and> update_difficulty_preference hf1 ''hard'' (- 0.5)
           ''2025-01-16'' ''2025-01-16T08:00:00'' = (Inr 3.0, Doc h2)
       \<and> current_difficulty_level h2 = Some 3.0"
    using t1 k unfolding s by simp
  have r2: "\<exists>hf1 h2.
         update_difficulty_preference (Doc (history_at 5.0)) ''easy'' 0.5
           ''2025-01-15'' ''2025-01-15T08:00:00'' = (Inr 5.0, hf1)
       \<and> update_difficulty_preference hf1 ''hard'' (- 0.5)
           ''2025-01-16'' ''2025-01-16T08:00:00'' = (Inr 4.5, Doc h2)
       \<and> current_difficulty_level h2 = Some 4.5"
    using t2 by simp
  show ?thesis using a1 a2 b1 b2 r1 r2 by simp
qed

text \<open>
  Claim C3 as stated fails at the boundary. From difficulty 4.8 the +0.5 step is clamped
  to 5.0, and the -0.5 step then gives 4.5, not 4.8.
\<close>

theorem easy_then_hard_counterexample:
  "current_difficulty_level (history_at 4.8) = Some 4.8
   \<and> fst (update_difficulty_preference (Doc (history_at 4.8)) ''easy'' 0.5
           ''2025-01-15'' ''2025-01-15T08:00:00'') = Inr 5.0
   \<and> fst (update_difficulty_preference
           (snd (update_difficulty_preference (Doc (history_at 4.8)) ''easy'' 0.5
                  ''2025-01-15'' ''2025-01-15T08:00:00''))
           ''hard'' (- 0.5) ''2025-01-16'' ''2025-01-16T08:00:00'') = Inr 4.5
   \<and> (4.5 :: real) \<noteq> 4.8"
  by (simp add: history_at_def initial_history_def update_difficulty_preference_def
      read_json_def write_json_def Let_def)

section \<open>Recording a send\<close>

text \<open>
  Claim C9. For a history document whose used lists have no duplicates,
  \<open>update_history\<close> leaves both lists without duplicates. An ID that is already in its
  list leaves that list unchanged, a new ID of a successful send is appended once; the
  send-log entry is appended in every case and the count of sent emails goes up by one
  on success.
\<close>

theorem update_history_keeps_distinct:
  assumes "sent_emails h = Some sent" and "used_verbs h = Some uv"
    and "used_adjectives h = Some ua" and "total_emails_sent h = Some n"
    and "distinct uv" and "distinct ua"
  shows "\<exists>h' uv' ua'.
           update_history (Doc h) verb_id adjective_id success level today = (Inr (), Doc h')
         \<and> used_verbs h' = Some uv' \<and> used_adjectives h' = Some ua'
         \<and> distinct uv' \<and> distinct ua'
         \<and> (verb_id \<in> set uv \<or> \<not> success \<longrightarrow> uv' = uv)
         \<and> (adjective_id \<in> set ua \<or> \<not> success \<longrightarrow> ua' = ua)
         \<and> (verb_id \<notin> set uv \<and> success \<longrightarrow> uv' = uv @ [verb_id])
         \<and> (adjective_id \<notin> set ua \<and> success \<longrightarrow> ua' = ua @ [adjective_id])
         \<and> sent_emails h' = Some (sent @
              [\<lparr> se_date = today, se_verb_id = verb_id, se_adjective_id = adjective_id,
                 se_success = success, se_difficulty_level = level \<rparr>])
         \<and> total_emails_sent h' = Some (if success then n + 1 else n)"
  using assms
  by (simp add: update_history_def read_json_def write_json_def Let_def)


theorem update_history_keeps_distinct_witness:
  "sent_emails (history_used [1, 2] [7]) = Some []
   \<and> used_verbs (history_used [1, 2] [7]) = Some [1, 2]
   \<and> used_adjectives (history_used [1, 2] [7]) = Some [7]
   \<and> total_emails_sent (history_used [1, 2] [7]) = Some 0
   \<and> distinct [1, 2 :: int] \<and> distinct [7 :: int]
   \<and> (\<exists>h'. update_history (Doc (history_used [1, 2] [7])) 2 8 True 2.0 ''2025-01-15''
              = (Inr (), Doc h')
        \<and> used_verbs h' = Some [1, 2] \<and> used_adjectives h' = Some [7, 8]
        \<and> sent_emails h' = Some
             [\<lparr> se_date = ''2025-01-15'', se_verb_id = 2, se_adjective_id = 8,
                se_success = True, se_difficulty_level = 2.0 \<rparr>]
        \<and> total_emails_sent h' = Some 1)"
proof -
  have a: "sent_emails (history_used [1, 2] [7]) = Some []"
    "used_verbs (history_used [1, 2] [7]) = Some [1, 2]"
    "used_adjectives (history_used [1, 2] [7]) = Some [7]"
    "total_emails_sent (history_used [1, 2] [7]) = Some 0"
    by (simp_all add: history_used_def initial_history_def)
  have d: "distinct [1, 2 :: int]" "distinct [7 :: int]" by simp_all
  show ?thesis
    using a d update_history_keeps_distinct [OF a d, of 2 8 True "2.0" "''2025-01-15''"]
    by auto
qed


section \<open>Daily selection\<close>

lemma after_resets_none [simp]: "after_resets False False hf = hf"
  by (cases hf) (simp_all add: after_resets_def)

lemma select_daily_words_Doc:
  assumes "load_words vf = Inr all_verbs" and "load_words af = Inr all_adjectives"
  shows "select_daily_words vf af (Doc h) rv pv ra pa =
    (let uv = get_unused_words all_verbs (used_verbs_of (Doc h));
         ua = get_unused_words all_adjectives (used_adjectives_of (Doc h));
         d = difficulty_of (Doc h);
         hf' = after_resets (uv = []) (ua = []) (Doc h)
     in case select_word_by_difficulty_distribution (if uv = [] then all_verbs else uv) d rv pv of
          Inl e \<Rightarrow> (Inl e, hf')
        | Inr v \<Rightarrow>
            (case select_word_by_difficulty_distribution
                    (if ua = [] then all_adjectives else ua) d ra pa of
               Inl e \<Rightarrow> (Inl e, hf')
             | Inr a \<Rightarrow> (Inr (v, a, uv = [], ua = []), hf')))"
  using assms
  by (simp add: select_daily_words_def read_json_def write_json_def reset_used_words_def
      used_verbs_of_def used_adjectives_of_def difficulty_of_def after_resets_def Let_def
      split: sum.splits)

lemma select_daily_words_Absent:
  assumes "load_words vf = Inr all_verbs" and "load_words af = Inr all_adjectives"
  shows "select_daily_words vf af Absent rv pv ra pa =
    (if all_verbs = [] \<or> all_adjectives = [] then (Inl FileNotFoundError, Absent)
     else case select_word_by_difficulty_distribution all_verbs 2.0 rv pv of
          Inl e \<Rightarrow> (Inl e, Absent)
        | Inr v \<Rightarrow>
            (case select_word_by_difficulty_distribution all_adjectives 2.0 ra pa of
               Inl e \<Rightarrow> (Inl e, Absent)
             | Inr a \<Rightarrow> (Inr (v, a, False, False), Absent)))"
  using assms
  by (simp add: select_daily_words_def read_json_def reset_used_words_def
      get_unused_words_def Let_def split: sum.splits)

lemma select_daily_words_Corrupt:
  assumes "load_words vf = Inr all_verbs" and "load_words af = Inr all_adjectives"
  shows "select_daily_words vf af Corrupt rv pv ra pa = (Inl JSONDecodeError, Corrupt)"
  using assms
  by (simp add: select_daily_words_def read_json_def)

lemma select_daily_words_load_fail:
  "load_words vf = Inl e \<Longrightarrow> select_daily_words vf af hf rv pv ra pa = (Inl e, hf)"
  "load_words vf = Inr vs \<Longrightarrow> load_words af = Inl e \<Longrightarrow>
     select_daily_words vf af hf rv pv ra pa = (Inl e, hf)"
  by (simp_all add: select_daily_words_def)


lemma load_words_files [simp]:
  "load_words (verbs_file_of ws) = Inr ws" "load_words (adjectives_file_of ws) = Inr ws"
  by (simp_all add: load_words_def read_json_def verbs_file_of_def adjectives_file_of_def)

lemma select_word_empty:
  "select_word_by_difficulty_distribution [] d rand pick
     = Inl (ValueError ''No words available to select from'')"
  by (simp add: select_word_by_difficulty_distribution_def)

lemma select_word_InrD:
  assumes "select_word_by_difficulty_distribution words d rand pick = Inr w"
  shows "w \<in> set words"
proof (cases "words = []")
  case True
  with assms show ?thesis by (simp add: select_word_empty)
next
  case False
  from select_word_mem [OF False, of d rand pick] assms show ?thesis by auto
qed

lemma get_unused_words_mem:
  "w \<in> set (get_unused_words all_words used) \<longleftrightarrow> w \<in> set all_words \<and> word_id w \<notin> set used"
  by (auto simp: get_unused_words_def)

lemma select_daily_words_InrD:
  assumes "select_daily_words vf af hf rv pv ra pa = (Inr (verb, adj, vr, ar), hf1)"
  shows "\<exists>all_verbs all_adjectives.
           load_words vf = Inr all_verbs \<and> load_words af = Inr all_adjectives
         \<and> vr = (get_unused_words all_verbs (used_verbs_of hf) = [])
         \<and> ar = (get_unused_words all_adjectives (used_adjectives_of hf) = [])
         \<and> verb \<in> set (if vr then all_verbs
                         else get_unused_words all_verbs (used_verbs_of hf))
         \<and> adj \<in> set (if ar then all_adjectives
                        else get_unused_words all_adjectives (used_adjectives_of hf))
         \<and> hf1 = after_resets vr ar hf"
proof -
  obtain all_verbs where lv: "load_words vf = Inr all_verbs"
    using assms select_daily_words_load_fail(1) [of vf _ af hf rv pv ra pa]
    by (cases "load_words vf") auto
  obtain all_adjectives where la: "load_words af = Inr all_adjectives"
    using assms lv select_daily_words_load_fail(2) [of vf all_verbs af _ hf rv pv ra pa]
    by (cases "load_words af") auto
  show ?thesis
  proof (cases hf)
    case Absent
    with assms lv la show ?thesis
      by (auto simp: select_daily_words_Absent [OF lv la] used_verbs_of_def
          used_adjectives_of_def get_unused_words_def
          split: if_splits sum.splits dest: select_word_InrD)
  next
    case Corrupt
    with assms lv la show ?thesis
      by (simp add: select_daily_words_Corrupt [OF lv la])
  next
    case (Doc h)
    with assms lv la show ?thesis
      by (auto simp: select_daily_words_Doc [OF lv la] Let_def
          split: sum.splits dest: select_word_InrD)
  qed
qed

text \<open>
  Claim C5. Whenever \<open>select_daily_words\<close> returns, the verb it returns has an ID that
  is not in the used verbs at entry unless the verb reset occurred, and likewise for the
  adjective. In particular, with the verbs 1, 2 and 3, all of difficulty 2.0, the used
  verbs \<open>[1, 2]\<close> and difficulty 2.0, the selection returns verb 3 without a verb reset,
  for every random draw and every non-empty adjective catalog.
\<close>

theorem selection_avoids_used_ids:
  "(select_daily_words vf af hf rv pv ra pa = (Inr (verb, adj, vr, ar), hf1) \<longrightarrow>
      (\<not> vr \<longrightarrow> word_id verb \<notin> set (used_verbs_of hf))
    \<and> (\<not> ar \<longrightarrow> word_id adj \<notin> set (used_adjectives_of hf)))
   \<and> (load_words af' = Inr all_adjectives \<and> all_adjectives \<noteq> [] \<longrightarrow>
        (\<exists>a ar' hf2.
           select_daily_words (verbs_file_of [vivir, beber, comer]) af'
             (Doc (history_used [1, 2] used_a)) rv' pv' ra' pa'
           = (Inr (comer, a, False, ar'), hf2)))"
proof -
  have general: "(\<not> vr \<longrightarrow> word_id verb \<notin> set (used_verbs_of hf))
      \<and> (\<not> ar \<longrightarrow> word_id adj \<notin> set (used_adjectives_of hf))"
    if "select_daily_words vf af hf rv pv ra pa = (Inr (verb, adj, vr, ar), hf1)"
    using select_daily_words_InrD [OF that] by (auto simp: get_unused_words_mem)
  have scenario: "\<exists>a ar' hf2.
           select_daily_words (verbs_file_of [vivir, beber, comer]) af'
             (Doc (history_used [1, 2] used_a)) rv' pv' ra' pa'
           = (Inr (comer, a, False, ar'), hf2)"
    if la: "load_words af' = Inr all_adjectives" and ne: "all_adjectives \<noteq> []"
  proof -
    let ?h = "history_used [1, 2] used_a"
    have uv: "get_unused_words [vivir, beber, comer] (used_verbs_of (Doc ?h)) = [comer]"
      by (simp add: get_unused_words_def used_verbs_of_def history_used_def
          initial_history_def vivir_def beber_def comer_def)
    have sv: "select_word_by_difficulty_distribution [comer] d rv' pv' = Inr comer" for d
      using select_word_mem [of "[comer]" d rv' pv'] by simp
    let ?ua = "get_unused_words all_adjectives (used_adjectives_of (Doc ?h))"
    have "(if ?ua = [] then all_adjectives else ?ua) \<noteq> []" using ne by simp
    from select_word_mem [OF this, of "difficulty_of (Doc ?h)" ra' pa']
    obtain a where "select_word_by_difficulty_distribution
        (if ?ua = [] then all_adjectives else ?ua) (difficulty_of (Doc ?h)) ra' pa' = Inr a"
      by blast
    then show ?thesis
      by (simp add: select_daily_words_Doc [OF load_words_files(1) la] uv sv Let_def)
  qed
  from general scenario show ?thesis by blast
qed


theorem selection_avoids_used_ids_witness:
  "select_daily_words (verbs_file_of [vivir, beber, comer]) (adjectives_file_of [rojo])
       (Doc (history_used [1, 2] [])) 0.5 0 0.5 0
     = (Inr (comer, rojo, False, False), Doc (history_used [1, 2] []))
   \<and> word_id comer \<notin> set (used_verbs_of (Doc (history_used [1, 2] [])))
   \<and> word_id rojo \<notin> set (used_adjectives_of (Doc (history_used [1, 2] [])))
   \<and> load_words (adjectives_file_of [rojo]) = Inr [rojo] \<and> [rojo] \<noteq> []"
proof -
  have sel: "select_daily_words (verbs_file_of [vivir, beber, comer])
       (adjectives_file_of [rojo]) (Doc (history_used [1, 2] [])) 0.5 0 0.5 0
     = (Inr (comer, rojo, False, False), Doc (history_used [1, 2] []))"
    by (simp add: select_daily_words_Doc [OF load_words_files] Let_def
        get_unused_words_def used_verbs_of_def used_adjectives_of_def difficulty_of_def
        history_used_def initial_history_def vivir_def beber_def comer_def rojo_def
        select_word_by_difficulty_distribution_def range_defs random_choice_def)
  show ?thesis
    using sel selection_avoids_used_ids [where vf = "verbs_file_of [vivir, beber, comer]"
        and af = "adjectives_file_of [rojo]" and hf = "Doc (history_used [1, 2] [])"
        and rv = "0.5" and pv = 0 and ra = "0.5" and pa = 0 and verb = comer and adj = rojo
        and vr = False and ar = False and ?hf1.0 = "Doc (history_used [1, 2] [])"
        and af' = "adjectives_file_of [rojo]" and all_adjectives = "[rojo]"]
    by simp
qed

lemma get_unused_words_Nil: "get_unused_words [] used = []"
  by (simp add: get_unused_words_def)

lemma select_daily_words_empty_Doc:
  assumes lv: "load_words vf = Inr all_verbs" and la: "load_words af = Inr all_adjectives"
    and empty: "all_verbs = [] \<or> all_adjectives = []"
  shows "fst (select_daily_words vf af (Doc h) rv pv ra pa)
           = Inl (ValueError ''No words available to select from'')"
proof (cases "all_verbs = []")
  case True
  then show ?thesis
    by (simp add: select_daily_words_Doc [OF lv la] Let_def get_unused_words_Nil
        select_word_empty)
next
  case False
  with empty have ae: "all_adjectives = []" by simp
  let ?uv = "get_unused_words all_verbs (used_verbs_of (Doc h))"
  have "(if ?uv = [] then all_verbs else ?uv) \<noteq> []" using False by simp
  from select_word_mem [OF this, of "difficulty_of (Doc h)" rv pv]
  obtain v where "select_word_by_difficulty_distribution
      (if ?uv = [] then all_verbs else ?uv) (difficulty_of (Doc h)) rv pv = Inr v"
    by blast
  then show ?thesis
    by (simp add: select_daily_words_Doc [OF lv la] Let_def ae get_unused_words_Nil
        select_word_empty)
qed

lemma select_daily_words_empty_any:
  assumes lv: "load_words vf = Inr all_verbs" and la: "load_words af = Inr all_adjectives"
    and empty: "all_verbs = [] \<or> all_adjectives = []"
  shows "\<exists>e. fst (select_daily_words vf af hf rv pv ra pa) = Inl e"
proof (cases hf)
  case Absent
  then show ?thesis using empty by (simp add: select_daily_words_Absent [OF lv la])
next
  case Corrupt
  then show ?thesis by (simp add: select_daily_words_Corrupt [OF lv la])
next
  case (Doc h)
  then show ?thesis using select_daily_words_empty_Doc [OF lv la empty] by simp
qed

lemma main_selection_error:
  assumes "fst (select_daily_words vf af hf rv pv ra pa) = Inl e"
  shows "fst (main config_valid dry_run vf af hf rv pv ra pa delivered today) = 1"
  using assms
  by (cases "select_daily_words vf af hf rv pv ra pa") (simp add: main_def)

text \<open>
  With an empty verb or adjective catalog \<open>select_daily_words\<close> always fails, and
  \<open>main\<close> ends the run with exit code 1. The error depends on the history file: the
  \<^verbatim>\<open>ValueError\<close> of the selection for every history document, but the
  \<^verbatim>\<open>FileNotFoundError\<close> of \<open>reset_used_words\<close> when the file is missing, and the
  decode error when it is unparsable.
\<close>

lemma empty_catalog_errors:
  assumes "load_words vf = Inr all_verbs" and "load_words af = Inr all_adjectives"
    and "all_verbs = [] \<or> all_adjectives = []"
  shows "fst (select_daily_words vf af (Doc h) rv pv ra pa)
           = Inl (ValueError ''No words available to select from'')"
    and "select_daily_words vf af Absent rv pv ra pa = (Inl FileNotFoundError, Absent)"
    and "select_daily_words vf af Corrupt rv pv ra pa = (Inl JSONDecodeError, Corrupt)"
    and "fst (main config_valid dry_run vf af hf rv pv ra pa delivered today) = 1"
proof -
  show "fst (select_daily_words vf af (Doc h) rv pv ra pa)
           = Inl (ValueError ''No words available to select from'')"
    by (rule select_daily_words_empty_Doc [OF assms])
  show "select_daily_words vf af Absent rv pv ra pa = (Inl FileNotFoundError, Absent)"
    using assms(3) by (simp add: select_daily_words_Absent [OF assms(1,2)])
  show "select_daily_words vf af Corrupt rv pv ra pa = (Inl JSONDecodeError, Corrupt)"
    by (rule select_daily_words_Corrupt [OF assms(1,2)])
  from select_daily_words_empty_any [OF assms, of hf rv pv ra pa]
  obtain e where "fst (select_daily_words vf af hf rv pv ra pa) = Inl e" by blast
  then show "fst (main config_valid dry_run vf af hf rv pv ra pa delivered today) = 1"
    by (rule main_selection_error)
qed

text \<open>
  Claim C8. The selection from an empty list raises
  \<^verbatim>\<open>ValueError("No words available to select from")\<close>, and with an empty verb
  catalog and the default history document \<open>select_daily_words\<close> fails with that error.
  On a first run, where the history file does not exist yet, the same call does not reach
  that error: the empty list of unused verbs is taken for an exhausted catalog,
  \<open>reset_used_words\<close> reads the missing file without the \<^verbatim>\<open>FileNotFoundError\<close>
  handler that \<open>select_daily_words\<close>, \<open>update_history\<close> and \<open>get_difficulty_level\<close>
  have, and the run ends with \<^verbatim>\<open>FileNotFoundError\<close> and exit code 1.
\<close>

theorem empty_catalog_first_run_error:
  "select_word_by_difficulty_distribution [] 2.0 0.5 0
     = Inl (ValueError ''No words available to select from'')
   \<and> select_daily_words (verbs_file_of []) (adjectives_file_of [rojo])
       (Doc initial_history) 0.5 0 0.5 0
     = (Inl (ValueError ''No words available to select from''), Doc initial_history)
   \<and> select_daily_words (verbs_file_of []) (adjectives_file_of [rojo]) Absent 0.5 0 0.5 0
     = (Inl FileNotFoundError, Absent)
   \<and> main True False (verbs_file_of []) (adjectives_file_of [rojo]) Absent 0.5 0 0.5 0
       True ''2025-01-15''
     = (1, Absent)"
proof -
  have a: "select_daily_words (verbs_file_of []) (adjectives_file_of [rojo]) Absent
      0.5 0 0.5 0 = (Inl FileNotFoundError, Absent)"
    by (simp add: select_daily_words_Absent [OF load_words_files])
  have d: "select_daily_words (verbs_file_of []) (adjectives_file_of [rojo])
       (Doc initial_history) 0.5 0 0.5 0
     = (Inl (ValueError ''No words available to select from''), Doc initial_history)"
    by (simp add: select_daily_words_Doc [OF load_words_files] Let_def
        get_unused_words_def select_word_empty after_resets_def used_adjectives_of_def
        initial_history_def rojo_def)
  show ?thesis using a d by (simp add: select_word_empty main_def)
qed


lemma main_failed_delivery:
  assumes "select_daily_words vf af hf rv pv ra pa = (Inr (verb, adj, vr, ar), hf1)"
  shows "main True False vf af hf rv pv ra pa False today = (1, hf1)"
  using assms by (simp add: main_def split: sum.splits)

lemma used_of_after_resets:
  "used_verbs_of (after_resets vr ar hf) = (if vr then [] else used_verbs_of hf)"
  "used_adjectives_of (after_resets vr ar hf) = (if ar then [] else used_adjectives_of hf)"
  by (cases hf; simp add: after_resets_def used_verbs_of_def used_adjectives_of_def)+

text \<open>
  Claim C2, as amended. When the selection has succeeded and the delivery fails, the run
  ends with exit code 1 and the history file is as the selection left it: equal to the
  file before the run when no reset occurred, and with the used list of each exhausted
  catalog cleared when a reset occurred (a reset is persisted during selection, before
  the delivery). In both cases the selected verb and adjective are unused in the
  persisted state, so they remain eligible on the next run.
\<close>

theorem failed_delivery_state:
  assumes sel: "select_daily_words vf af hf rv pv ra pa = (Inr (verb, adj, vr, ar), hf1)"
    and lv: "load_words vf = Inr all_verbs" and la: "load_words af = Inr all_adjectives"
  shows "main True False vf af hf rv pv ra pa False today = (1, after_resets vr ar hf)
       \<and> (\<not> vr \<and> \<not> ar \<longrightarrow> after_resets vr ar hf = hf)
       \<and> used_verbs_of (after_resets vr ar hf) = (if vr then [] else used_verbs_of hf)
       \<and> used_adjectives_of (after_resets vr ar hf)
           = (if ar then [] else used_adjectives_of hf)
       \<and> verb \<in> set (get_unused_words all_verbs (used_verbs_of (after_resets vr ar hf)))
       \<and> adj \<in> set (get_unused_words all_adjectives
                       (used_adjectives_of (after_resets vr ar hf)))"
proof -
  from select_daily_words_InrD [OF sel] lv la
  have hf1: "hf1 = after_resets vr ar hf"
    and v: "verb \<in> set (if vr then all_verbs
                         else get_unused_words all_verbs (used_verbs_of hf))"
    and a: "adj \<in> set (if ar then all_adjectives
                        else get_unused_words all_adjectives (used_adjectives_of hf))"
    by auto
  have m: "main True False vf af hf rv pv ra pa False today = (1, after_resets vr ar hf)"
    using main_failed_delivery [OF sel] hf1 by simp
  have v': "verb \<in> set (get_unused_words all_verbs (used_verbs_of (after_resets vr ar hf)))"
    using v by (simp add: used_of_after_resets get_unused_words_def split: if_splits)
  have a': "adj \<in> set (get_unused_words all_adjectives
                       (used_adjectives_of (after_resets vr ar hf)))"
    using a by (simp add: used_of_after_resets get_unused_words_def split: if_splits)
  show ?thesis using m v' a' by (simp add: used_of_after_resets)
qed

theorem failed_delivery_state_witness:
  "select_daily_words (verbs_file_of [vivir, beber, comer]) (adjectives_file_of [rojo])
       (Doc (history_used [1, 2] [])) 0.5 0 0.5 0
     = (Inr (comer, rojo, False, False), Doc (history_used [1, 2] []))
   \<and> load_words (verbs_file_of [vivir, beber, comer]) = Inr [vivir, beber, comer]
   \<and> load_words (adjectives_file_of [rojo]) = Inr [rojo]
   \<and> main True False (verbs_file_of [vivir, beber, comer]) (adjectives_file_of [rojo])
       (Doc (history_used [1, 2] [])) 0.5 0 0.5 0 False ''2025-01-15''
     = (1, Doc (history_used [1, 2] []))
   \<and> comer \<in> set (get_unused_words [vivir, beber, comer]
                      (used_verbs_of (Doc (history_used [1, 2] []))))"
proof -
  have sel: "select_daily_words (verbs_file_of [vivir, beber, comer])
       (adjectives_file_of [rojo]) (Doc (history_used [1, 2] [])) 0.5 0 0.5 0
     = (Inr (comer, rojo, False, False), Doc (history_used [1, 2] []))"
    by (simp add: select_daily_words_Doc [OF load_words_files] Let_def
        get_unused_words_def used_verbs_of_def used_adjectives_of_def difficulty_of_def
        history_used_def initial_history_def vivir_def beber_def comer_def rojo_def
        select_word_by_difficulty_distribution_def range_defs random_choice_def)
  show ?thesis
    using sel failed_delivery_state [OF sel load_words_files, of "''2025-01-15''"]
    by simp
qed

text \<open>
  Claim C2 as stated fails when a reset occurs. With the single verb 3 already used, the
  selection resets the used verbs and writes the cleared list to the history file; the
  delivery then fails, and the persisted used verbs are \<open>[]\<close>, not \<open>[3]\<close> as before the
  run.
\<close>

theorem failed_delivery_after_reset_counterexample:
  "select_daily_words (verbs_file_of [comer]) (adjectives_file_of [rojo])
       (Doc (history_used [3] [])) 0.5 0 0.5 0
     = (Inr (comer, rojo, True, False), Doc (history_used [] []))
   \<and> main True False (verbs_file_of [comer]) (adjectives_file_of [rojo])
       (Doc (history_used [3] [])) 0.5 0 0.5 0 False ''2025-01-15''
     = (1, Doc (history_used [] []))
   \<and> used_verbs (history_used [3] []) = Some [3]
   \<and> used_verbs (history_used [] []) = Some []
   \<and> Doc (history_used [] []) \<noteq> Doc (history_used [3] [])"
proof -
  have uv: "used_verbs (history_used [3] []) = Some [3]"
    "used_verbs (history_used [] []) = Some []"
    by (simp_all add: history_used_def)
  have ne: "Doc (history_used [] []) \<noteq> Doc (history_used [3] [])"
    by (simp add: history_used_def initial_history_def)
  have sel: "select_daily_words (verbs_file_of [comer]) (adjectives_file_of [rojo])
       (Doc (history_used [3] [])) 0.5 0 0.5 0
     = (Inr (comer, rojo, True, False), Doc (history_used [] []))"
    by (simp add: select_daily_words_Doc [OF load_words_files] Let_def
        get_unused_words_def used_verbs_of_def used_adjectives_of_def difficulty_of_def
        after_resets_def history_used_def initial_history_def comer_def rojo_def
        select_word_by_difficulty_distribution_def range_defs random_choice_def)
  show ?thesis using sel uv ne by (simp add: main_def get_difficulty_level_def read_json_def
    history_used_def initial_history_def)
qed



section \<open>Parsing feedback\<close>

lemma occurrence_chars:
  assumes occ: "take (length keyword) (drop i s) = keyword" and ne: "keyword \<noteq> []"
  shows "i + length keyword \<le> length s"
    and "s ! i = hd keyword"
    and "s ! (i + length keyword - 1) = last keyword"
proof -
  have "length (take (length keyword) (drop i s)) = length keyword" using occ by simp
  then have len: "length keyword \<le> length s - i" by simp
  with ne show le: "i + length keyword \<le> length s" by (cases keyword) auto
  have pos: "0 < length keyword" using ne by simp
  have nth: "keyword ! j = s ! (i + j)" if "j < length keyword" for j
  proof -
    have "keyword ! j = take (length keyword) (drop i s) ! j" using occ by simp
    also have "\<dots> = drop i s ! j" using that by simp
    also have "\<dots> = s ! (i + j)" using le that by simp
    finally show ?thesis .
  qed
  show "s ! i = hd keyword" using nth [of 0] pos ne by (simp add: hd_conv_nth)
  have "last keyword = keyword ! (length keyword - 1)" using ne by (simp add: last_conv_nth)
  also have "\<dots> = s ! (i + (length keyword - 1))"
    using nth [of "length keyword - 1"] pos by linarith
  also have "i + (length keyword - 1) = i + length keyword - 1" using pos by linarith
  finally show "s ! (i + length keyword - 1) = last keyword" by simp
qed

lemma bounded_match_iff:
  assumes ne: "keyword \<noteq> []"
    and first: "is_word_char (hd keyword)" and final: "is_word_char (last keyword)"
  shows "word_boundary s i \<and> take (length keyword) (drop i s) = keyword
           \<and> word_boundary s (i + length keyword)
         \<longleftrightarrow> whole_word_at keyword s i"
proof (cases "take (length keyword) (drop i s) = keyword")
  case False
  then show ?thesis by (simp add: whole_word_at_def)
next
  case True
  note c = occurrence_chars [OF True ne]
  have pos: "0 < length keyword" using ne by simp
  have lt: "i < length s" using c(1) pos by linarith
  have b1: "word_boundary s i \<longleftrightarrow> (i = 0 \<or> \<not> is_word_char (s ! (i - 1)))"
    using lt c(2) first by (auto simp: word_boundary_def)
  have b2: "word_boundary s (i + length keyword)
      \<longleftrightarrow> (i + length keyword = length s \<or> \<not> is_word_char (s ! (i + length keyword)))"
    using c(1) c(3) final pos by (auto simp: word_boundary_def)
  show ?thesis using True c(1) b1 b2 by (simp add: whole_word_at_def)
qed


lemma ex_upt_Suc: "(\<exists>i \<in> set [0..<Suc n]. P i) \<longleftrightarrow> (\<exists>i \<le> n. P i)"
proof
  assume "\<exists>i \<in> set [0..<Suc n]. P i"
  then obtain i where "i \<in> set [0..<Suc n]" and "P i" by blast
  then have "i \<le> n" by (simp only: set_upt atLeastLessThan_iff less_Suc_eq_le)
  with \<open>P i\<close> show "\<exists>i \<le> n. P i" by blast
next
  assume "\<exists>i \<le> n. P i"
  then obtain i where "i \<le> n" and "P i" by blast
  then have "i \<in> set [0..<Suc n]"
    by (simp only: set_upt atLeastLessThan_iff less_Suc_eq_le le0 simp_thms)
  with \<open>P i\<close> show "\<exists>i \<in> set [0..<Suc n]. P i" by blast
qed

lemma re_search_bounded_iff:
  assumes "keyword \<noteq> []" and "is_word_char (hd keyword)" and "is_word_char (last keyword)"
  shows "re_search_bounded keyword s \<longleftrightarrow> occurs_as_whole_word keyword s"
proof -
  have "re_search_bounded keyword s
      \<longleftrightarrow> (\<exists>i \<in> set [0..<Suc (length s)]. whole_word_at keyword s i)"
    unfolding re_search_bounded_def list_ex_iff
    by (simp only: bounded_match_iff [OF assms])
  also have "\<dots> \<longleftrightarrow> (\<exists>i \<le> length s. whole_word_at keyword s i)"
    by (rule ex_upt_Suc)
  finally show ?thesis by (simp add: occurs_as_whole_word_def)
qed

lemma keywords_shape:
  assumes "k \<in> set (map fst FEEDBACK_KEYWORDS)"
  shows "k \<noteq> [] \<and> is_word_char (hd k) \<and> is_word_char (last k)"
proof -
  have "list_all (\<lambda>k. k \<noteq> [] \<and> is_word_char (hd k) \<and> is_word_char (last k))
          (map fst FEEDBACK_KEYWORDS)"
    by code_simp
  with assms show ?thesis unfolding list_all_iff by blast
qed

lemma keyword_search_iff:
  assumes "k \<in> set (map fst FEEDBACK_KEYWORDS)"
  shows "re_search_bounded k s \<longleftrightarrow> occurs_as_whole_word k s"
  using keywords_shape [OF assms] by (simp add: re_search_bounded_iff)


text \<open>
  Claim C6. \<open>parse_feedback_from_text\<close> returns a keyword exactly when that keyword
  occurs as a whole word or phrase in the lower-cased text and no keyword earlier in the
  order of \<open>FEEDBACK_KEYWORDS\<close> does; it returns nothing exactly when no keyword occurs
  as a whole word. The result depends on the lower-cased text only. In particular
  "that was uneasy" matches no keyword, and "too easy!" gives the easy-family keyword
  "easy", whose adjustment is +0.5.
\<close>

theorem parse_feedback_whole_word_first_match:
  "(parse_feedback_from_text body = Some k \<longleftrightarrow>
      (\<exists>i < length (map fst FEEDBACK_KEYWORDS).
          map fst FEEDBACK_KEYWORDS ! i = k
        \<and> occurs_as_whole_word k (lower body)
        \<and> (\<forall>j < i. \<not> occurs_as_whole_word (map fst FEEDBACK_KEYWORDS ! j) (lower body))))
   \<and> (parse_feedback_from_text body = None \<longleftrightarrow>
        (\<forall>k' \<in> set (map fst FEEDBACK_KEYWORDS). \<not> occurs_as_whole_word k' (lower body)))
   \<and> (lower body = lower body' \<longrightarrow>
        parse_feedback_from_text body = parse_feedback_from_text body')
   \<and> parse_feedback_from_text ''that was uneasy'' = None
   \<and> parse_feedback_from_text ''too easy!'' = Some ''easy''
   \<and> map_of FEEDBACK_KEYWORDS ''easy'' = Some 0.5"
proof -
  let ?ks = "map fst FEEDBACK_KEYWORDS"
  let ?s = "lower body"
  have P: "re_search_bounded (?ks ! i) ?s \<longleftrightarrow> occurs_as_whole_word (?ks ! i) ?s"
    if "i < length ?ks" for i
    using that by (intro keyword_search_iff nth_mem)
  have some: "parse_feedback_from_text body = Some k \<longleftrightarrow>
      (\<exists>i < length ?ks. ?ks ! i = k \<and> occurs_as_whole_word k ?s
        \<and> (\<forall>j < i. \<not> occurs_as_whole_word (?ks ! j) ?s))"
  proof
    assume "parse_feedback_from_text body = Some k"
    then obtain i where i: "i < length ?ks" "re_search_bounded (?ks ! i) ?s" "k = ?ks ! i"
      "\<forall>j < i. \<not> re_search_bounded (?ks ! j) ?s"
      unfolding parse_feedback_from_text_def Let_def find_Some_iff by blast
    have "\<forall>j < i. \<not> occurs_as_whole_word (?ks ! j) ?s"
      using i(1,4) P by (meson less_trans)
    with i(1,2,3) P [OF i(1)] show "\<exists>i < length ?ks. ?ks ! i = k
        \<and> occurs_as_whole_word k ?s \<and> (\<forall>j < i. \<not> occurs_as_whole_word (?ks ! j) ?s)"
      by blast
  next
    assume "\<exists>i < length ?ks. ?ks ! i = k \<and> occurs_as_whole_word k ?s
        \<and> (\<forall>j < i. \<not> occurs_as_whole_word (?ks ! j) ?s)"
    then obtain i where i: "i < length ?ks" "?ks ! i = k" "occurs_as_whole_word k ?s"
      "\<forall>j < i. \<not> occurs_as_whole_word (?ks ! j) ?s" by blast
    have "\<forall>j < i. \<not> re_search_bounded (?ks ! j) ?s"
      using i(1,4) P by (meson less_trans)
    moreover have "re_search_bounded (?ks ! i) ?s" using P [OF i(1)] i(2,3) by simp
    ultimately show "parse_feedback_from_text body = Some k"
      unfolding parse_feedback_from_text_def Let_def find_Some_iff using i(1,2) by blast
  qed
  have none: "parse_feedback_from_text body = None \<longleftrightarrow>
        (\<forall>k' \<in> set ?ks. \<not> occurs_as_whole_word k' ?s)"
    unfolding parse_feedback_from_text_def Let_def find_None_iff
    using keyword_search_iff by blast
  have ci: "lower body = lower body' \<longrightarrow>
        parse_feedback_from_text body = parse_feedback_from_text body'"
    by (simp add: parse_feedback_from_text_def)
  have e1: "parse_feedback_from_text ''that was uneasy'' = None" by code_simp
  have e2: "parse_feedback_from_text ''too easy!'' = Some ''easy''" by code_simp
  have e3: "map_of FEEDBACK_KEYWORDS ''easy'' = Some 0.5"
    by (simp add: FEEDBACK_KEYWORDS_def)
  from some none ci e1 e2 e3 show ?thesis by blast
qed

theorem parse_feedback_whole_word_first_match_witness:
  "lower ''Too EASY!'' = lower ''too easy!''
   \<and> parse_feedback_from_text ''Too EASY!'' = Some ''easy''
   \<and> 0 < length (map fst FEEDBACK_KEYWORDS)
   \<and> map fst FEEDBACK_KEYWORDS ! 0 = ''easy''
   \<and> occurs_as_whole_word ''easy'' (lower ''Too EASY!'')
   \<and> ''easy'' \<in> set (map fst FEEDBACK_KEYWORDS)
   \<and> \<not> occurs_as_whole_word ''easy'' (lower ''that was uneasy'')"
proof -
  have l: "lower ''Too EASY!'' = lower ''too easy!''" by code_simp
  have k: "0 < length (map fst FEEDBACK_KEYWORDS)" "map fst FEEDBACK_KEYWORDS ! 0 = ''easy''"
    "''easy'' \<in> set (map fst FEEDBACK_KEYWORDS)"
    by (simp_all add: FEEDBACK_KEYWORDS_def)
  note t1 = parse_feedback_whole_word_first_match [where body = "''Too EASY!''" and body' = "''too easy!''" and k = "''easy''"]
  note t2 = parse_feedback_whole_word_first_match [where body = "''that was uneasy''" and body' = "''that was uneasy''"
      and k = "''easy''"]
  have p: "parse_feedback_from_text ''Too EASY!'' = Some ''easy''"
    using t1 [THEN conjunct2, THEN conjunct2, THEN conjunct1]
      t1 [THEN conjunct2, THEN conjunct2, THEN conjunct2, THEN conjunct2, THEN conjunct1] l
    by simp
  from iffD1 [OF t1 [THEN conjunct1] p]
  have o: "occurs_as_whole_word ''easy'' (lower ''Too EASY!'')"
    by (elim exE conjE)
  have e: "parse_feedback_from_text ''that was uneasy'' = None"
    by (rule t2 [THEN conjunct2, THEN conjunct2, THEN conjunct2, THEN conjunct1])
  from iffD1 [OF t2 [THEN conjunct2, THEN conjunct1] e] k(3)
  have n: "\<not> occurs_as_whole_word ''easy'' (lower ''that was uneasy'')"
    by (rule bspec)
  show ?thesis
    by (intro conjI l p k o n)
qed


section \<open>Errors and their handling\<close>

lemma update_difficulty_preference_error:
  "update_difficulty_preference Corrupt feedback a today now_iso = (Inl JSONDecodeError, Corrupt)"
  "update_difficulty_preference Absent feedback a today now_iso = (Inl FileNotFoundError, Absent)"
  by (simp_all add: update_difficulty_preference_def read_json_def)

lemma update_difficulty_preference_keeps_file:
  "update_difficulty_preference hf feedback a today now_iso = (Inl e, hf') \<Longrightarrow> hf' = hf"
  by (auto simp: update_difficulty_preference_def Let_def split: sum.splits option.splits)

lemma check_for_feedback_try_keeps_file:
  assumes "check_for_feedback_try hf mail today now_iso = (Inl e, hf')"
  shows "hf' = hf"
proof (cases mail)
  case (LatestMessage subject body)
  with assms show ?thesis
    by (auto simp: check_for_feedback_try_def
        split: if_splits option.splits prod.splits sum.splits
        dest: update_difficulty_preference_keeps_file)
qed (use assms in \<open>simp_all add: check_for_feedback_try_def\<close>)

lemma check_for_feedback_swallows:
  assumes "fst (check_for_feedback_try hf mail today now_iso) = Inl e"
  shows "check_for_feedback hf mail today now_iso = ((False, None, None), hf)"
proof -
  obtain hf' where t: "check_for_feedback_try hf mail today now_iso = (Inl e, hf')"
    using assms by (cases "check_for_feedback_try hf mail today now_iso") simp
  from check_for_feedback_try_keeps_file [OF t] t show ?thesis
    by (simp add: check_for_feedback_def)
qed

lemma parsed_keyword:
  assumes "parse_feedback_from_text body = Some k"
  shows "k \<noteq> []" and "\<exists>a. map_of FEEDBACK_KEYWORDS k = Some a"
proof -
  have mem: "k \<in> set (map fst FEEDBACK_KEYWORDS)"
    using assms unfolding parse_feedback_from_text_def Let_def find_Some_iff
    by (metis nth_mem)
  from keywords_shape [OF mem] show "k \<noteq> []" by simp
  from mem show "\<exists>a. map_of FEEDBACK_KEYWORDS k = Some a"
    by (metis map_of_eq_None_iff not_Some_eq image_set)
qed

lemma check_for_feedback_try_unreadable:
  assumes subj: "contains (lower subject) ''daily spanish'' \<or> contains (lower subject) ''re:''"
    and parsed: "parse_feedback_from_text body = Some k"
  shows "check_for_feedback_try Corrupt (LatestMessage subject body) today now_iso
           = (Inl JSONDecodeError, Corrupt)"
    and "check_for_feedback_try Absent (LatestMessage subject body) today now_iso
           = (Inl FileNotFoundError, Absent)"
proof -
  from parsed_keyword [OF parsed] obtain a where
    k: "k \<noteq> []" "map_of FEEDBACK_KEYWORDS k = Some a" by blast
  show "check_for_feedback_try Corrupt (LatestMessage subject body) today now_iso
           = (Inl JSONDecodeError, Corrupt)"
    using subj parsed k
    by (auto simp: check_for_feedback_try_def update_difficulty_preference_error)
  show "check_for_feedback_try Absent (LatestMessage subject body) today now_iso
           = (Inl FileNotFoundError, Absent)"
    using subj parsed k
    by (auto simp: check_for_feedback_try_def update_difficulty_preference_error)
qed


lemma select_daily_words_first_run:
  assumes lv: "load_words vf = Inr all_verbs" and la: "load_words af = Inr all_adjectives"
    and ne: "all_verbs \<noteq> []" "all_adjectives \<noteq> []"
  shows "fst (select_daily_words vf af Absent rv pv ra pa)
           = fst (select_daily_words vf af (Doc initial_history) rv pv ra pa)"
proof -
  have u: "get_unused_words all_verbs (used_verbs_of (Doc initial_history)) = all_verbs"
    "get_unused_words all_adjectives (used_adjectives_of (Doc initial_history))
       = all_adjectives"
    by (simp_all add: get_unused_words_def used_verbs_of_def used_adjectives_of_def
        initial_history_def)
  have d: "difficulty_of (Doc initial_history) = 2.0"
    by (simp add: difficulty_of_def initial_history_def)
  show ?thesis
    using ne
    by (simp add: select_daily_words_Absent [OF lv la] select_daily_words_Doc [OF lv la]
        u d Let_def split: sum.splits)
qed

text \<open>
  Claim C4, as amended. In a send cycle an unparsable history document is surfaced:
  \<open>select_daily_words\<close> raises the decode error and \<open>main\<close> exits with code 1; only a
  missing history file is replaced by the default state (no used words, difficulty 2.0).
  In a feedback-check cycle no error is surfaced: whenever the body of
  \<open>check_for_feedback\<close> raises (an IMAP error, any other exception, and in particular an
  unparsable or missing history document when a reply with a keyword has arrived),
  \<open>check_for_feedback\<close> returns the not-found result \<open>(False, None, None)\<close>, leaves the
  history file as it was, and the feedback script exits with code 0.
\<close>

theorem feedback_check_swallows_errors:
  assumes lv: "load_words vf = Inr all_verbs" and la: "load_words af = Inr all_adjectives"
  shows "select_daily_words vf af Corrupt rv pv ra pa = (Inl JSONDecodeError, Corrupt)
       \<and> fst (main True dry_run vf af Corrupt rv pv ra pa delivered today) = 1
       \<and> (all_verbs \<noteq> [] \<and> all_adjectives \<noteq> [] \<longrightarrow>
            fst (select_daily_words vf af Absent rv pv ra pa)
              = fst (select_daily_words vf af (Doc initial_history) rv pv ra pa))
       \<and> (fst (check_for_feedback_try hf mail today now_iso) = Inl e \<longrightarrow>
            check_for_feedback hf mail today now_iso = ((False, None, None), hf)
          \<and> check_feedback_main True hf mail today now_iso = (0, hf))
       \<and> ((contains (lower subject) ''daily spanish'' \<or> contains (lower subject) ''re:'')
            \<and> parse_feedback_from_text body = Some k \<longrightarrow>
            check_for_feedback_try Corrupt (LatestMessage subject body) today now_iso
              = (Inl JSONDecodeError, Corrupt)
          \<and> check_for_feedback_try Absent (LatestMessage subject body) today now_iso
              = (Inl FileNotFoundError, Absent))"
proof -
  have a: "select_daily_words vf af Corrupt rv pv ra pa = (Inl JSONDecodeError, Corrupt)"
    by (rule select_daily_words_Corrupt [OF lv la])
  then have b: "fst (main True dry_run vf af Corrupt rv pv ra pa delivered today) = 1"
    by (simp add: main_def)
  have c: "all_verbs \<noteq> [] \<and> all_adjectives \<noteq> [] \<longrightarrow>
            fst (select_daily_words vf af Absent rv pv ra pa)
              = fst (select_daily_words vf af (Doc initial_history) rv pv ra pa)"
    using select_daily_words_first_run [OF lv la] by blast
  have d: "fst (check_for_feedback_try hf mail today now_iso) = Inl e \<longrightarrow>
            check_for_feedback hf mail today now_iso = ((False, None, None), hf)
          \<and> check_feedback_main True hf mail today now_iso = (0, hf)"
    using check_for_feedback_swallows [of hf mail today now_iso e]
    by (simp add: check_feedback_main_def)
  have f: "(contains (lower subject) ''daily spanish'' \<or> contains (lower subject) ''re:'')
            \<and> parse_feedback_from_text body = Some k \<longrightarrow>
            check_for_feedback_try Corrupt (LatestMessage subject body) today now_iso
              = (Inl JSONDecodeError, Corrupt)
          \<and> check_for_feedback_try Absent (LatestMessage subject body) today now_iso
              = (Inl FileNotFoundError, Absent)"
    using check_for_feedback_try_unreadable [of subject body k today now_iso] by blast
  from a b c d f show ?thesis by (intro conjI)
qed

lemma reply_parses:
  "contains (lower ''Re: Your Daily Spanish Vocabulary'') ''re:''"
  "parse_feedback_from_text ''This was too hard for me'' = Some ''hard''"
  by code_simp+

theorem feedback_check_swallows_errors_witness:
  "load_words (verbs_file_of [comer]) = Inr [comer]
   \<and> load_words (adjectives_file_of [rojo]) = Inr [rojo]
   \<and> [comer] \<noteq> [] \<and> [rojo] \<noteq> []
   \<and> contains (lower ''Re: Your Daily Spanish Vocabulary'') ''re:''
   \<and> parse_feedback_from_text ''This was too hard for me'' = Some ''hard''
   \<and> select_daily_words (verbs_file_of [comer]) (adjectives_file_of [rojo]) Corrupt
         0.5 0 0.5 0 = (Inl JSONDecodeError, Corrupt)
   \<and> fst (select_daily_words (verbs_file_of [comer]) (adjectives_file_of [rojo]) Absent
         0.5 0 0.5 0)
       = fst (select_daily_words (verbs_file_of [comer]) (adjectives_file_of [rojo])
                (Doc initial_history) 0.5 0 0.5 0)
   \<and> fst (check_for_feedback_try Corrupt reply_too_hard
            ''2025-01-15'' ''2025-01-15T08:00:00'') = Inl JSONDecodeError
   \<and> check_for_feedback Corrupt reply_too_hard ''2025-01-15'' ''2025-01-15T08:00:00''
       = ((False, None, None), Corrupt)
   \<and> check_feedback_main True Corrupt reply_too_hard ''2025-01-15'' ''2025-01-15T08:00:00''
       = (0, Corrupt)"
proof -
  have lv: "load_words (verbs_file_of [comer]) = Inr [comer]"
    and la: "load_words (adjectives_file_of [rojo]) = Inr [rojo]"
    by (simp_all add: load_words_files)
  note t = feedback_check_swallows_errors [OF lv la, where rv = "0.5" and pv = 0 and ra = "0.5" and pa = 0
      and hf = Corrupt and mail = reply_too_hard
      and today = "''2025-01-15''" and now_iso = "''2025-01-15T08:00:00''"
      and e = JSONDecodeError
      and subject = "''Re: Your Daily Spanish Vocabulary''"
      and body = "''This was too hard for me''" and k = "''hard''"]
  show ?thesis
    using t reply_parses by (simp add: reply_too_hard_def)
qed

text \<open>
  Claim C4 as stated fails in the feedback-check cycle. With an unparsable history file
  and a reply that says "This was too hard for me", the update of the difficulty raises
  the decode error, and \<open>check_for_feedback\<close> turns it into \<open>(False, None, None)\<close>,
  the same result as for an empty inbox; the script exits with code 0.
\<close>

theorem corrupt_history_feedback_counterexample:
  "fst (check_for_feedback_try Corrupt reply_too_hard
          ''2025-01-15'' ''2025-01-15T08:00:00'') = Inl JSONDecodeError
   \<and> check_for_feedback Corrupt reply_too_hard ''2025-01-15'' ''2025-01-15T08:00:00''
       = ((False, None, None), Corrupt)
   \<and> check_for_feedback Corrupt NoMessages ''2025-01-15'' ''2025-01-15T08:00:00''
       = ((False, None, None), Corrupt)
   \<and> check_feedback_main True Corrupt reply_too_hard ''2025-01-15'' ''2025-01-15T08:00:00''
       = (0, Corrupt)"
proof -
  have t: "check_for_feedback_try Corrupt reply_too_hard
          ''2025-01-15'' ''2025-01-15T08:00:00'' = (Inl JSONDecodeError, Corrupt)"
    unfolding reply_too_hard_def
    by (rule check_for_feedback_try_unreadable(1) [OF disjI2 reply_parses(2)])
      (rule reply_parses(1))
  have n: "check_for_feedback_try Corrupt NoMessages ''2025-01-15'' ''2025-01-15T08:00:00''
      = (Inr (False, None, None), Corrupt)"
    by (simp add: check_for_feedback_try_def)
  show ?thesis using t n by (simp add: check_for_feedback_def check_feedback_main_def)
qed


end
